theory Spec2Isabelle
  imports Main "HOL-Library.Word"
begin

section \<open>The C types of src/native/curl\_shim.c\<close>

text \<open>
  The file includes \<^verbatim>\<open>curl/curl.h\<close> and defines four functions. Each takes a
  \<^verbatim>\<open>CURL *\<close> handle, a \<^verbatim>\<open>CURLoption\<close> or \<^verbatim>\<open>CURLINFO\<close> identifier and
  one more argument (a \<^verbatim>\<open>long\<close>, a \<^verbatim>\<open>const void *\<close>, a \<^verbatim>\<open>long *\<close> or a
  \<^verbatim>\<open>void **\<close>), and returns a \<^verbatim>\<open>CURLcode\<close>.

  Pointers and \<^verbatim>\<open>long\<close> are 64-bit words (the LP64 data model; the specification
  speaks of int64). The three enumerations of curl.h are 32-bit words.
\<close>

type_synonym addr = "64 word"
type_synonym c_long = "64 word"
type_synonym CURLcode = "32 word"
type_synonym CURLoption = "32 word"
type_synonym CURLINFO = "32 word"

definition NULL :: addr where
  "NULL = 0"

definition CURLE_OK :: CURLcode where
  "CURLE_OK = 0"

text \<open>
  \<^verbatim>\<open>curl_easy_setopt\<close> and \<^verbatim>\<open>curl_easy_getinfo\<close> are variadic: their third
  argument is passed with the static type it has at the call. The four constructors are
  the four parameter types of the source: \<^verbatim>\<open>long value\<close>,
  \<^verbatim>\<open>const void *value\<close>, \<^verbatim>\<open>long *out\<close> and \<^verbatim>\<open>void **out\<close>.
\<close>

datatype vararg =
    VaLong c_long
  | VaConstVoidPtr addr
  | VaLongPtr addr
  | VaVoidPtrPtr addr

section \<open>The world outside the shim\<close>

text \<open>
  Everything a call into libcurl can read or write: the memory of the process (the
  8-byte object stored at each address) and the private state of the library, of a type
  \<open>'s\<close> the shim knows nothing about.
\<close>

record 's world =
  mem :: "addr \<Rightarrow> 64 word"
  lib :: 's

text \<open>
  libcurl is not part of the source: its two functions are parameters of the model. A
  call takes the world and, when it returns, gives its \<^verbatim>\<open>CURLcode\<close> and the world it
  leaves; \<open>None\<close> is a call that does not return (it loops, or the process dies
  inside it).
\<close>

record 's libcurl =
  curl_easy_setopt ::
    "addr \<Rightarrow> CURLoption \<Rightarrow> vararg \<Rightarrow> 's world \<Rightarrow> (CURLcode \<times> 's world) option"
  curl_easy_getinfo ::
    "addr \<Rightarrow> CURLINFO \<Rightarrow> vararg \<Rightarrow> 's world \<Rightarrow> (CURLcode \<times> 's world) option"

text \<open>
  A call expression of the source, with the arguments it is given. The outcome of running
  a function body is the list of the calls it made, in order, and what it returned.
\<close>

datatype extcall =
    Call_setopt addr CURLoption vararg
  | Call_getinfo addr CURLINFO vararg

type_synonym 's outcome = "extcall list \<times> (CURLcode \<times> 's world) option"

fun invoke :: "'s libcurl \<Rightarrow> extcall \<Rightarrow> 's world \<Rightarrow> (CURLcode \<times> 's world) option" where
  "invoke L (Call_setopt handle option arg) w = curl_easy_setopt L handle option arg w"
| "invoke L (Call_getinfo handle info arg) w = curl_easy_getinfo L handle info arg w"

text \<open>\<^verbatim>\<open>return f(...);\<close> : one call is made, and its result is the function's result.\<close>

definition return_call :: "'s libcurl \<Rightarrow> extcall \<Rightarrow> 's world \<Rightarrow> 's outcome" where
  "return_call L c w = ([c], invoke L c w)"

definition calls :: "'s outcome \<Rightarrow> extcall list" where
  "calls r = fst r"

definition returned :: "'s outcome \<Rightarrow> CURLcode option" where
  "returned r = map_option fst (snd r)"

definition final :: "'s outcome \<Rightarrow> 's world option" where
  "final r = map_option snd (snd r)"

definition returns :: "'s outcome \<Rightarrow> bool" where
  "returns r = (\<exists>x. snd r = Some x)"

text \<open>The object stored at an address once the function has returned.\<close>

definition stored_after :: "addr \<Rightarrow> 's outcome \<Rightarrow> 64 word option" where
  "stored_after p r = map_option (\<lambda>v. mem v p) (final r)"

section \<open>The four functions\<close>

text \<open>
  \<^verbatim>\<open>
  CURLcode curl_easy_setopt_long_shim(CURL *handle, CURLoption option, long value) {
    return curl_easy_setopt(handle, option, value);
  }
  \<close>
\<close>

definition curl_easy_setopt_long_shim ::
  "'s libcurl \<Rightarrow> addr \<Rightarrow> CURLoption \<Rightarrow> c_long \<Rightarrow> 's world \<Rightarrow> 's outcome" where
  "curl_easy_setopt_long_shim L handle option value w =
     return_call L (Call_setopt handle option (VaLong value)) w"

text \<open>
  \<^verbatim>\<open>
  CURLcode curl_easy_setopt_ptr_shim(CURL *handle, CURLoption option, const void *value) {
    return curl_easy_setopt(handle, option, value);
  }
  \<close>
\<close>

definition curl_easy_setopt_ptr_shim ::
  "'s libcurl \<Rightarrow> addr \<Rightarrow> CURLoption \<Rightarrow> addr \<Rightarrow> 's world \<Rightarrow> 's outcome" where
  "curl_easy_setopt_ptr_shim L handle option value w =
     return_call L (Call_setopt handle option (VaConstVoidPtr value)) w"

text \<open>
  \<^verbatim>\<open>
  CURLcode curl_easy_getinfo_long_shim(CURL *handle, CURLINFO info, long *out) {
    return curl_easy_getinfo(handle, info, out);
  }
  \<close>
\<close>

definition curl_easy_getinfo_long_shim ::
  "'s libcurl \<Rightarrow> addr \<Rightarrow> CURLINFO \<Rightarrow> addr \<Rightarrow> 's world \<Rightarrow> 's outcome" where
  "curl_easy_getinfo_long_shim L handle info out w =
     return_call L (Call_getinfo handle info (VaLongPtr out)) w"

text \<open>
  \<^verbatim>\<open>
  CURLcode curl_easy_getinfo_ptr_shim(CURL *handle, CURLINFO info, void **out) {
    return curl_easy_getinfo(handle, info, out);
  }
  \<close>
\<close>

definition curl_easy_getinfo_ptr_shim ::
  "'s libcurl \<Rightarrow> addr \<Rightarrow> CURLINFO \<Rightarrow> addr \<Rightarrow> 's world \<Rightarrow> 's outcome" where
  "curl_easy_getinfo_ptr_shim L handle info out w =
     return_call L (Call_getinfo handle info (VaVoidPtrPtr out)) w"

section \<open>Entry points and value kinds\<close>

text \<open>The function of libcurl that a call enters.\<close>

datatype entry_point = Easy_setopt | Easy_getinfo

fun callee :: "extcall \<Rightarrow> entry_point" where
  "callee (Call_setopt handle option arg) = Easy_setopt"
| "callee (Call_getinfo handle info arg) = Easy_getinfo"

text \<open>
  The calls the four functions make when each is run once, in the order of the file.
\<close>

definition shim_calls ::
  "'s libcurl \<Rightarrow> addr \<Rightarrow> CURLoption \<Rightarrow> CURLINFO \<Rightarrow> c_long \<Rightarrow> addr \<Rightarrow> addr \<Rightarrow> addr \<Rightarrow>
   's world \<Rightarrow> extcall list" where
  "shim_calls L handle option info value ptr out_long out_ptr w =
     calls (curl_easy_setopt_long_shim L handle option value w) @
     calls (curl_easy_setopt_ptr_shim L handle option ptr w) @
     calls (curl_easy_getinfo_long_shim L handle info out_long w) @
     calls (curl_easy_getinfo_ptr_shim L handle info out_ptr w)"

text \<open>
  The kind of value an option takes. The source has one function for each kind it can
  pass: a \<^verbatim>\<open>long\<close> or a pointer.
\<close>

datatype value_kind = Integer_kind | Pointer_kind

fun kind_of_arg :: "vararg \<Rightarrow> value_kind" where
  "kind_of_arg (VaLong v) = Integer_kind"
| "kind_of_arg (VaConstVoidPtr p) = Pointer_kind"
| "kind_of_arg (VaLongPtr p) = Pointer_kind"
| "kind_of_arg (VaVoidPtrPtr p) = Pointer_kind"

text \<open>
  The kind an option is declared with is a matter of curl.h, which the source includes and
  which is not part of it; the theorems take the declaration as a parameter. For concrete
  runs, \<open>curlopt_kind\<close> follows the numbering of curl.h: an option is its type's base
  plus a small number, with \<^verbatim>\<open>CURLOPTTYPE_LONG\<close> = 0,
  \<^verbatim>\<open>CURLOPTTYPE_OBJECTPOINT\<close> = 10000, \<^verbatim>\<open>CURLOPTTYPE_FUNCTIONPOINT\<close> = 20000,
  \<^verbatim>\<open>CURLOPTTYPE_OFF_T\<close> = 30000 and \<^verbatim>\<open>CURLOPTTYPE_BLOB\<close> = 40000. So
  \<^verbatim>\<open>CURLOPT_URL\<close> = 10002 takes a pointer (a string) and
  \<^verbatim>\<open>CURLOPT_TIMEOUT_MS\<close> = 155 takes a \<^verbatim>\<open>long\<close>.
\<close>

definition curlopt_kind :: "CURLoption \<Rightarrow> value_kind" where
  "curlopt_kind option =
     (if unat option < 10000 then Integer_kind
      else if unat option < 30000 then Pointer_kind
      else if unat option < 40000 then Integer_kind
      else Pointer_kind)"

definition CURLOPT_URL :: CURLoption where
  "CURLOPT_URL = 10002"

definition CURLOPT_TIMEOUT_MS :: CURLoption where
  "CURLOPT_TIMEOUT_MS = 155"

section \<open>A stand-in library for concrete runs\<close>

text \<open>
  To run the four functions on concrete inputs the library parameter needs a value. The
  stand-in below is not libcurl; it is the simplest library that keeps what it is given.
  Its private state is the list of the options set so far, latest first.
  \<^item> \<open>stub_setopt\<close> refuses a null handle with \<^verbatim>\<open>CURLE_BAD_FUNCTION_ARGUMENT\<close> (43)
    and otherwise records the option and returns \<^verbatim>\<open>CURLE_OK\<close>. It looks at neither
    the option's number nor the kind of the value.
  \<^item> \<open>stub_getinfo\<close> knows one identifier, \<^verbatim>\<open>CURLINFO_RESPONSE_CODE\<close> (0x200002),
    for which it stores 200 through the pointer it is given; for any other identifier it
    returns \<^verbatim>\<open>CURLE_UNKNOWN_OPTION\<close> (48) and writes nothing.
\<close>

type_synonym stub_state = "(addr \<times> CURLoption \<times> vararg) list"

definition CURLE_BAD_FUNCTION_ARGUMENT :: CURLcode where
  "CURLE_BAD_FUNCTION_ARGUMENT = 43"

definition CURLE_UNKNOWN_OPTION :: CURLcode where
  "CURLE_UNKNOWN_OPTION = 48"

definition CURLINFO_RESPONSE_CODE :: CURLINFO where
  "CURLINFO_RESPONSE_CODE = 2097154"

definition stub_setopt ::
  "addr \<Rightarrow> CURLoption \<Rightarrow> vararg \<Rightarrow> stub_state world \<Rightarrow> (CURLcode \<times> stub_state world) option" where
  "stub_setopt handle option arg w =
     (if handle = NULL then Some (CURLE_BAD_FUNCTION_ARGUMENT, w)
      else Some (CURLE_OK, w\<lparr>lib := (handle, option, arg) # lib w\<rparr>))"

text \<open>
  The address the stand-in writes through: the 64 bits of the third argument, whatever
  static type it was passed with.
\<close>

fun out_pointer :: "vararg \<Rightarrow> addr" where
  "out_pointer (VaLong v) = v"
| "out_pointer (VaConstVoidPtr p) = p"
| "out_pointer (VaLongPtr p) = p"
| "out_pointer (VaVoidPtrPtr p) = p"

definition stub_getinfo ::
  "addr \<Rightarrow> CURLINFO \<Rightarrow> vararg \<Rightarrow> stub_state world \<Rightarrow> (CURLcode \<times> stub_state world) option" where
  "stub_getinfo handle info arg w =
     (if handle = NULL then Some (CURLE_BAD_FUNCTION_ARGUMENT, w)
      else if info = CURLINFO_RESPONSE_CODE
        then Some (CURLE_OK, w\<lparr>mem := (mem w)(out_pointer arg := 200)\<rparr>)
      else Some (CURLE_UNKNOWN_OPTION, w))"

definition stub_lib :: "stub_state libcurl" where
  "stub_lib = \<lparr>curl_easy_setopt = stub_setopt, curl_easy_getinfo = stub_getinfo\<rparr>"

text \<open>A world in which the object at address 4096 holds 77 and no option is set.\<close>

definition stub_world :: "stub_state world" where
  "stub_world = \<lparr>mem = (\<lambda>a. if a = 4096 then 77 else 0), lib = []\<rparr>"

section \<open>A stand-in library that fails the hard way\<close>

text \<open>
  A second stand-in, for the two ways in which a library can let an error show outside
  the status it returns. Like the first it is not libcurl.
  \<^item> \<open>harsh_setopt\<close> takes the third argument of a pointer-kind option for the address
    of an object and reads through it. Given a \<^verbatim>\<open>long\<close> there, which is no address, the
    process dies inside the call: the call does not return.
  \<^item> \<open>harsh_getinfo\<close> keeps an error buffer when the caller has registered one with
    \<^verbatim>\<open>CURLOPT_ERRORBUFFER\<close> (10010): a failed call leaves its code in the buffer as well
    as returning it.
\<close>

definition CURLOPT_ERRORBUFFER :: CURLoption where
  "CURLOPT_ERRORBUFFER = 10010"

fun error_buffer :: "addr \<Rightarrow> stub_state \<Rightarrow> addr option" where
  "error_buffer handle [] = None"
| "error_buffer handle ((h, option, arg) # rest) =
     (if h = handle \<and> option = CURLOPT_ERRORBUFFER then Some (out_pointer arg)
      else error_buffer handle rest)"

definition fail_with ::
  "addr \<Rightarrow> CURLcode \<Rightarrow> stub_state world \<Rightarrow> (CURLcode \<times> stub_state world) option" where
  "fail_with handle code w =
     (case error_buffer handle (lib w) of
        None \<Rightarrow> Some (code, w)
      | Some buffer \<Rightarrow> Some (code, w\<lparr>mem := (mem w)(buffer := ucast code)\<rparr>))"

definition harsh_setopt ::
  "addr \<Rightarrow> CURLoption \<Rightarrow> vararg \<Rightarrow> stub_state world \<Rightarrow> (CURLcode \<times> stub_state world) option" where
  "harsh_setopt handle option arg w =
     (if handle = NULL then Some (CURLE_BAD_FUNCTION_ARGUMENT, w)
      else if curlopt_kind option = Pointer_kind \<and> kind_of_arg arg = Integer_kind then None
      else Some (CURLE_OK, w\<lparr>lib := (handle, option, arg) # lib w\<rparr>))"

definition harsh_getinfo ::
  "addr \<Rightarrow> CURLINFO \<Rightarrow> vararg \<Rightarrow> stub_state world \<Rightarrow> (CURLcode \<times> stub_state world) option" where
  "harsh_getinfo handle info arg w =
     (if handle = NULL then Some (CURLE_BAD_FUNCTION_ARGUMENT, w)
      else if info = CURLINFO_RESPONSE_CODE
        then Some (CURLE_OK, w\<lparr>mem := (mem w)(out_pointer arg := 200)\<rparr>)
      else fail_with handle CURLE_UNKNOWN_OPTION w)"

definition harsh_lib :: "stub_state libcurl" where
  "harsh_lib = \<lparr>curl_easy_setopt = harsh_setopt, curl_easy_getinfo = harsh_getinfo\<rparr>"

text \<open>
  The world after \<^verbatim>\<open>CURLOPT_ERRORBUFFER\<close> has been set to address 8192 on handle 1.
\<close>

definition buffer_world :: "stub_state world" where
  "buffer_world = stub_world\<lparr>lib := [(1, CURLOPT_ERRORBUFFER, VaConstVoidPtr 8192)]\<rparr>"

section \<open>Unfolding the functions\<close>

lemma setopt_long_shim_outcome:
  "curl_easy_setopt_long_shim L handle option value w =
     ([Call_setopt handle option (VaLong value)],
      curl_easy_setopt L handle option (VaLong value) w)"
  by (simp add: curl_easy_setopt_long_shim_def return_call_def)

lemma setopt_ptr_shim_outcome:
  "curl_easy_setopt_ptr_shim L handle option value w =
     ([Call_setopt handle option (VaConstVoidPtr value)],
      curl_easy_setopt L handle option (VaConstVoidPtr value) w)"
  by (simp add: curl_easy_setopt_ptr_shim_def return_call_def)

lemma getinfo_long_shim_outcome:
  "curl_easy_getinfo_long_shim L handle info out w =
     ([Call_getinfo handle info (VaLongPtr out)],
      curl_easy_getinfo L handle info (VaLongPtr out) w)"
  by (simp add: curl_easy_getinfo_long_shim_def return_call_def)

lemma getinfo_ptr_shim_outcome:
  "curl_easy_getinfo_ptr_shim L handle info out w =
     ([Call_getinfo handle info (VaVoidPtrPtr out)],
      curl_easy_getinfo L handle info (VaVoidPtrPtr out) w)"
  by (simp add: curl_easy_getinfo_ptr_shim_def return_call_def)

lemmas shim_outcome =
  setopt_long_shim_outcome setopt_ptr_shim_outcome
  getinfo_long_shim_outcome getinfo_ptr_shim_outcome

lemma shim_calls_list:
  "shim_calls L handle option info value ptr out_long out_ptr w =
     [Call_setopt handle option (VaLong value),
      Call_setopt handle option (VaConstVoidPtr ptr),
      Call_getinfo handle info (VaLongPtr out_long),
      Call_getinfo handle info (VaVoidPtrPtr out_ptr)]"
  by (simp add: shim_calls_def calls_def shim_outcome)

section \<open>Facts about the stand-in library\<close>

lemma stub_setopt_null:
  "curl_easy_setopt stub_lib NULL option arg w = Some (CURLE_BAD_FUNCTION_ARGUMENT, w)"
  by (simp add: stub_lib_def stub_setopt_def)

lemma stub_setopt_stores:
  "handle \<noteq> NULL \<Longrightarrow> curl_easy_setopt stub_lib handle option arg w =
     Some (CURLE_OK, w\<lparr>lib := (handle, option, arg) # lib w\<rparr>)"
  by (simp add: stub_lib_def stub_setopt_def)

lemma stub_getinfo_unknown:
  "handle \<noteq> NULL \<Longrightarrow> info \<noteq> CURLINFO_RESPONSE_CODE \<Longrightarrow>
   curl_easy_getinfo stub_lib handle info arg w = Some (CURLE_UNKNOWN_OPTION, w)"
  by (simp add: stub_lib_def stub_getinfo_def)

lemma stub_getinfo_response_code:
  "handle \<noteq> NULL \<Longrightarrow>
   curl_easy_getinfo stub_lib handle CURLINFO_RESPONSE_CODE arg w =
     Some (CURLE_OK, w\<lparr>mem := (mem w)(out_pointer arg := 200)\<rparr>)"
  by (simp add: stub_lib_def stub_getinfo_def)

lemma one_not_NULL: "(1 :: addr) \<noteq> NULL"
  by (simp add: NULL_def)

lemma seven_unknown: "(7 :: CURLINFO) \<noteq> CURLINFO_RESPONSE_CODE"
  by (simp add: CURLINFO_RESPONSE_CODE_def)

lemma stub_errors_not_ok:
  "CURLE_BAD_FUNCTION_ARGUMENT \<noteq> CURLE_OK" "CURLE_UNKNOWN_OPTION \<noteq> CURLE_OK"
  by (simp_all add: CURLE_BAD_FUNCTION_ARGUMENT_def CURLE_UNKNOWN_OPTION_def CURLE_OK_def)

lemma curlopt_kinds:
  "curlopt_kind CURLOPT_URL = Pointer_kind" "curlopt_kind CURLOPT_TIMEOUT_MS = Integer_kind"
  by (simp_all add: curlopt_kind_def CURLOPT_URL_def CURLOPT_TIMEOUT_MS_def)

lemma harsh_setopt_dies:
  "curl_easy_setopt harsh_lib 1 CURLOPT_URL (VaLong 5) stub_world = None"
  by (simp add: harsh_lib_def harsh_setopt_def one_not_NULL curlopt_kinds)

lemma harsh_setopt_buffer:
  "curl_easy_setopt harsh_lib 1 CURLOPT_ERRORBUFFER (VaConstVoidPtr 8192) stub_world =
     Some (CURLE_OK, buffer_world)"
  by (simp add: harsh_lib_def harsh_setopt_def one_not_NULL buffer_world_def stub_world_def)

lemma harsh_getinfo_fails:
  "curl_easy_getinfo harsh_lib 1 7 (VaLongPtr 4096) buffer_world =
     Some (CURLE_UNKNOWN_OPTION,
           buffer_world\<lparr>mem := (mem buffer_world)(8192 := ucast CURLE_UNKNOWN_OPTION)\<rparr>)"
  by (simp add: harsh_lib_def harsh_getinfo_def one_not_NULL seven_unknown fail_with_def
      buffer_world_def)

section \<open>The status code\<close>

text \<open>
  C1. For every handle, identifier and value, each of the four functions returns exactly
  the status code that the call of \<^verbatim>\<open>curl_easy_setopt\<close> or
  \<^verbatim>\<open>curl_easy_getinfo\<close> on the same arguments returns, and returns none when that
  call does not return: the code is not translated.
\<close>

theorem shim_status_verbatim:
  "returned (curl_easy_setopt_long_shim L handle option value w) =
     map_option fst (curl_easy_setopt L handle option (VaLong value) w)
   \<and> returned (curl_easy_setopt_ptr_shim L handle option ptr w) =
     map_option fst (curl_easy_setopt L handle option (VaConstVoidPtr ptr) w)
   \<and> returned (curl_easy_getinfo_long_shim L handle info out w) =
     map_option fst (curl_easy_getinfo L handle info (VaLongPtr out) w)
   \<and> returned (curl_easy_getinfo_ptr_shim L handle info out w) =
     map_option fst (curl_easy_getinfo L handle info (VaVoidPtrPtr out) w)"
  by (simp add: returned_def shim_outcome)

section \<open>What a call does besides returning\<close>

text \<open>
  C4. Each function performs no buffering, no protocol logic and no connection management:
  its only effect is the single call of the underlying libcurl function with its own
  arguments. The list of calls it makes has that one call and nothing before or after it,
  and the world it leaves is the world that call leaves: the function has no state of its
  own to read or write.
\<close>

theorem shim_only_effect_is_the_call:
  "calls (curl_easy_setopt_long_shim L handle option value w) =
     [Call_setopt handle option (VaLong value)]
   \<and> final (curl_easy_setopt_long_shim L handle option value w) =
     map_option snd (curl_easy_setopt L handle option (VaLong value) w)
   \<and> calls (curl_easy_setopt_ptr_shim L handle option ptr w) =
     [Call_setopt handle option (VaConstVoidPtr ptr)]
   \<and> final (curl_easy_setopt_ptr_shim L handle option ptr w) =
     map_option snd (curl_easy_setopt L handle option (VaConstVoidPtr ptr) w)
   \<and> calls (curl_easy_getinfo_long_shim L handle info out w) =
     [Call_getinfo handle info (VaLongPtr out)]
   \<and> final (curl_easy_getinfo_long_shim L handle info out w) =
     map_option snd (curl_easy_getinfo L handle info (VaLongPtr out) w)
   \<and> calls (curl_easy_getinfo_ptr_shim L handle info out w) =
     [Call_getinfo handle info (VaVoidPtrPtr out)]
   \<and> final (curl_easy_getinfo_ptr_shim L handle info out w) =
     map_option snd (curl_easy_getinfo L handle info (VaVoidPtrPtr out) w)"
  by (simp add: calls_def final_def shim_outcome)

text \<open>
  C8. No function validates or rejects an argument. For every input the outcome is the one
  call and its result, and so it is for a null handle, a null value pointer and a null out
  pointer: the function has no result of its own, and it reads nothing through the handle,
  the value or the out pointer, which it only hands on. Whatever is checked or
  dereferenced is checked or dereferenced inside libcurl.
\<close>

theorem shim_never_rejects:
  "curl_easy_setopt_long_shim L handle option value w =
     ([Call_setopt handle option (VaLong value)],
      curl_easy_setopt L handle option (VaLong value) w)
   \<and> curl_easy_setopt_ptr_shim L handle option ptr w =
     ([Call_setopt handle option (VaConstVoidPtr ptr)],
      curl_easy_setopt L handle option (VaConstVoidPtr ptr) w)
   \<and> curl_easy_getinfo_long_shim L handle info out w =
     ([Call_getinfo handle info (VaLongPtr out)],
      curl_easy_getinfo L handle info (VaLongPtr out) w)
   \<and> curl_easy_getinfo_ptr_shim L handle info out w =
     ([Call_getinfo handle info (VaVoidPtrPtr out)],
      curl_easy_getinfo L handle info (VaVoidPtrPtr out) w)
   \<and> curl_easy_setopt_long_shim L NULL option value w =
     ([Call_setopt NULL option (VaLong value)],
      curl_easy_setopt L NULL option (VaLong value) w)
   \<and> curl_easy_setopt_ptr_shim L NULL option NULL w =
     ([Call_setopt NULL option (VaConstVoidPtr NULL)],
      curl_easy_setopt L NULL option (VaConstVoidPtr NULL) w)
   \<and> curl_easy_getinfo_long_shim L NULL info NULL w =
     ([Call_getinfo NULL info (VaLongPtr NULL)],
      curl_easy_getinfo L NULL info (VaLongPtr NULL) w)
   \<and> curl_easy_getinfo_ptr_shim L NULL info NULL w =
     ([Call_getinfo NULL info (VaVoidPtrPtr NULL)],
      curl_easy_getinfo L NULL info (VaVoidPtrPtr NULL) w)"
  by (simp add: shim_outcome)

section \<open>Returning\<close>

text \<open>
  C10. Each of the four functions returns, for every input, exactly when its call of
  libcurl returns, and it makes one call: the body is that call, with no loop, no
  recursion and no branch.
\<close>

theorem shim_returns_when_call_returns:
  "returns (curl_easy_setopt_long_shim L handle option value w) =
     (\<exists>x. curl_easy_setopt L handle option (VaLong value) w = Some x)
   \<and> returns (curl_easy_setopt_ptr_shim L handle option ptr w) =
     (\<exists>x. curl_easy_setopt L handle option (VaConstVoidPtr ptr) w = Some x)
   \<and> returns (curl_easy_getinfo_long_shim L handle info out w) =
     (\<exists>x. curl_easy_getinfo L handle info (VaLongPtr out) w = Some x)
   \<and> returns (curl_easy_getinfo_ptr_shim L handle info out w) =
     (\<exists>x. curl_easy_getinfo L handle info (VaVoidPtrPtr out) w = Some x)
   \<and> length (calls (curl_easy_setopt_long_shim L handle option value w)) = 1
   \<and> length (calls (curl_easy_setopt_ptr_shim L handle option ptr w)) = 1
   \<and> length (calls (curl_easy_getinfo_long_shim L handle info out w)) = 1
   \<and> length (calls (curl_easy_getinfo_ptr_shim L handle info out w)) = 1"
  by (simp add: returns_def calls_def shim_outcome)

section \<open>Errors\<close>

text \<open>
  C5, as the code has it. Every error that the call of libcurl reports by returning
  surfaces through the status the accessor returns, where \<^verbatim>\<open>CURLE_OK\<close> = 0 means
  success and any other code an error: the function returns that code unchanged, and it
  returns \<^verbatim>\<open>CURLE_OK\<close> only when libcurl did. The function itself reports an error
  through no other channel: it makes no other call (it notifies no one) and it writes
  nothing, so the world after it is, in every case, exactly the world the call left. It
  adds nothing and it hides nothing: when the call does not return, the function returns
  no status either, and what libcurl wrote while failing stays written.
\<close>

theorem shim_error_only_in_status:
  "(curl_easy_setopt L handle option (VaLong value) w = Some (code, w') \<and> code \<noteq> CURLE_OK \<longrightarrow>
      returned (curl_easy_setopt_long_shim L handle option value w) = Some code
      \<and> final (curl_easy_setopt_long_shim L handle option value w) = Some w'
      \<and> calls (curl_easy_setopt_long_shim L handle option value w) =
          [Call_setopt handle option (VaLong value)])
   \<and> (curl_easy_setopt L handle option (VaConstVoidPtr ptr) w = Some (code, w') \<and> code \<noteq> CURLE_OK \<longrightarrow>
      returned (curl_easy_setopt_ptr_shim L handle option ptr w) = Some code
      \<and> final (curl_easy_setopt_ptr_shim L handle option ptr w) = Some w'
      \<and> calls (curl_easy_setopt_ptr_shim L handle option ptr w) =
          [Call_setopt handle option (VaConstVoidPtr ptr)])
   \<and> (curl_easy_getinfo L handle info (VaLongPtr out) w = Some (code, w') \<and> code \<noteq> CURLE_OK \<longrightarrow>
      returned (curl_easy_getinfo_long_shim L handle info out w) = Some code
      \<and> final (curl_easy_getinfo_long_shim L handle info out w) = Some w'
      \<and> calls (curl_easy_getinfo_long_shim L handle info out w) =
          [Call_getinfo handle info (VaLongPtr out)])
   \<and> (curl_easy_getinfo L handle info (VaVoidPtrPtr out) w = Some (code, w') \<and> code \<noteq> CURLE_OK \<longrightarrow>
      returned (curl_easy_getinfo_ptr_shim L handle info out w) = Some code
      \<and> final (curl_easy_getinfo_ptr_shim L handle info out w) = Some w'
      \<and> calls (curl_easy_getinfo_ptr_shim L handle info out w) =
          [Call_getinfo handle info (VaVoidPtrPtr out)])
   \<and> (returned (curl_easy_setopt_long_shim L handle option value w) = Some CURLE_OK) =
      (\<exists>v. curl_easy_setopt L handle option (VaLong value) w = Some (CURLE_OK, v))
   \<and> (returned (curl_easy_setopt_ptr_shim L handle option ptr w) = Some CURLE_OK) =
      (\<exists>v. curl_easy_setopt L handle option (VaConstVoidPtr ptr) w = Some (CURLE_OK, v))
   \<and> (returned (curl_easy_getinfo_long_shim L handle info out w) = Some CURLE_OK) =
      (\<exists>v. curl_easy_getinfo L handle info (VaLongPtr out) w = Some (CURLE_OK, v))
   \<and> (returned (curl_easy_getinfo_ptr_shim L handle info out w) = Some CURLE_OK) =
      (\<exists>v. curl_easy_getinfo L handle info (VaVoidPtrPtr out) w = Some (CURLE_OK, v))
   \<and> (returned (curl_easy_setopt_long_shim L handle option value w) = None) =
      (curl_easy_setopt L handle option (VaLong value) w = None)
   \<and> (returned (curl_easy_setopt_ptr_shim L handle option ptr w) = None) =
      (curl_easy_setopt L handle option (VaConstVoidPtr ptr) w = None)
   \<and> (returned (curl_easy_getinfo_long_shim L handle info out w) = None) =
      (curl_easy_getinfo L handle info (VaLongPtr out) w = None)
   \<and> (returned (curl_easy_getinfo_ptr_shim L handle info out w) = None) =
      (curl_easy_getinfo L handle info (VaVoidPtrPtr out) w = None)
   \<and> final (curl_easy_setopt_long_shim L handle option value w) =
      map_option snd (curl_easy_setopt L handle option (VaLong value) w)
   \<and> final (curl_easy_setopt_ptr_shim L handle option ptr w) =
      map_option snd (curl_easy_setopt L handle option (VaConstVoidPtr ptr) w)
   \<and> final (curl_easy_getinfo_long_shim L handle info out w) =
      map_option snd (curl_easy_getinfo L handle info (VaLongPtr out) w)
   \<and> final (curl_easy_getinfo_ptr_shim L handle info out w) =
      map_option snd (curl_easy_getinfo L handle info (VaVoidPtrPtr out) w)
   \<and> CURLE_OK = 0"
  by (auto simp add: returned_def final_def calls_def shim_outcome CURLE_OK_def)

text \<open>
  The stand-in refuses a null handle in \<open>stub_setopt\<close> and an unknown identifier in
  \<open>stub_getinfo\<close>; all four functions hand the refusal back and leave the world alone.
\<close>

theorem shim_error_only_in_status_witness:
  "curl_easy_setopt stub_lib NULL CURLOPT_TIMEOUT_MS (VaLong 5) stub_world =
     Some (CURLE_BAD_FUNCTION_ARGUMENT, stub_world)
   \<and> curl_easy_setopt stub_lib NULL CURLOPT_TIMEOUT_MS (VaConstVoidPtr 4096) stub_world =
     Some (CURLE_BAD_FUNCTION_ARGUMENT, stub_world)
   \<and> CURLE_BAD_FUNCTION_ARGUMENT \<noteq> CURLE_OK
   \<and> returned (curl_easy_setopt_long_shim stub_lib NULL CURLOPT_TIMEOUT_MS 5 stub_world) =
       Some CURLE_BAD_FUNCTION_ARGUMENT
   \<and> final (curl_easy_setopt_long_shim stub_lib NULL CURLOPT_TIMEOUT_MS 5 stub_world) =
       Some stub_world
   \<and> returned (curl_easy_setopt_ptr_shim stub_lib NULL CURLOPT_TIMEOUT_MS 4096 stub_world) =
       Some CURLE_BAD_FUNCTION_ARGUMENT
   \<and> final (curl_easy_setopt_ptr_shim stub_lib NULL CURLOPT_TIMEOUT_MS 4096 stub_world) =
       Some stub_world
   \<and> curl_easy_getinfo stub_lib 1 7 (VaLongPtr 4096) stub_world =
       Some (CURLE_UNKNOWN_OPTION, stub_world)
   \<and> curl_easy_getinfo stub_lib 1 7 (VaVoidPtrPtr 4096) stub_world =
       Some (CURLE_UNKNOWN_OPTION, stub_world)
   \<and> CURLE_UNKNOWN_OPTION \<noteq> CURLE_OK
   \<and> returned (curl_easy_getinfo_long_shim stub_lib 1 7 4096 stub_world) =
       Some CURLE_UNKNOWN_OPTION
   \<and> final (curl_easy_getinfo_long_shim stub_lib 1 7 4096 stub_world) = Some stub_world
   \<and> returned (curl_easy_getinfo_ptr_shim stub_lib 1 7 4096 stub_world) =
       Some CURLE_UNKNOWN_OPTION
   \<and> final (curl_easy_getinfo_ptr_shim stub_lib 1 7 4096 stub_world) = Some stub_world"
proof -
  have set_calls:
    "curl_easy_setopt stub_lib NULL CURLOPT_TIMEOUT_MS (VaLong 5) stub_world =
       Some (CURLE_BAD_FUNCTION_ARGUMENT, stub_world)"
    "curl_easy_setopt stub_lib NULL CURLOPT_TIMEOUT_MS (VaConstVoidPtr 4096) stub_world =
       Some (CURLE_BAD_FUNCTION_ARGUMENT, stub_world)"
    by (simp_all add: stub_setopt_null)
  have get_calls:
    "curl_easy_getinfo stub_lib 1 7 (VaLongPtr 4096) stub_world =
       Some (CURLE_UNKNOWN_OPTION, stub_world)"
    "curl_easy_getinfo stub_lib 1 7 (VaVoidPtrPtr 4096) stub_world =
       Some (CURLE_UNKNOWN_OPTION, stub_world)"
    by (simp_all add: stub_getinfo_unknown one_not_NULL seven_unknown)
  note set_run = shim_error_only_in_status
    [of stub_lib NULL CURLOPT_TIMEOUT_MS 5 stub_world CURLE_BAD_FUNCTION_ARGUMENT stub_world 4096]
  note get_run = shim_error_only_in_status
    [of stub_lib 1 _ _ stub_world CURLE_UNKNOWN_OPTION stub_world _ 7 4096]
  show ?thesis
    using set_run get_run set_calls get_calls stub_errors_not_ok by simp
qed

text \<open>
  C5 as stated says that every error of the accessors surfaces through the status alone and
  that no error indication is written elsewhere. The functions check nothing, so a misuse
  reaches the library as it is. On the second stand-in, \<^verbatim>\<open>CURLOPT_URL\<close> set through
  the \<^verbatim>\<open>long\<close> function ends inside the call: the accessor returns no status at all.
  And once an error buffer is registered at address 8192, which held 0, the failing
  getinfo on the unknown identifier 7 returns \<^verbatim>\<open>CURLE_UNKNOWN_OPTION\<close> (48) and the
  buffer holds 48 as well.
\<close>

theorem error_outside_status_counterexample:
  "returned (curl_easy_setopt_long_shim harsh_lib 1 CURLOPT_URL 5 stub_world) = None
   \<and> final (curl_easy_setopt_long_shim harsh_lib 1 CURLOPT_URL 5 stub_world) = None
   \<and> returned (curl_easy_setopt_ptr_shim harsh_lib 1 CURLOPT_ERRORBUFFER 8192 stub_world) =
       Some CURLE_OK
   \<and> final (curl_easy_setopt_ptr_shim harsh_lib 1 CURLOPT_ERRORBUFFER 8192 stub_world) =
       Some buffer_world
   \<and> mem buffer_world 8192 = 0
   \<and> returned (curl_easy_getinfo_long_shim harsh_lib 1 7 4096 buffer_world) =
       Some CURLE_UNKNOWN_OPTION
   \<and> stored_after 8192 (curl_easy_getinfo_long_shim harsh_lib 1 7 4096 buffer_world) = Some 48"
  by (simp add: returned_def final_def stored_after_def shim_outcome harsh_setopt_dies
      harsh_setopt_buffer harsh_getinfo_fails CURLE_UNKNOWN_OPTION_def)
    (simp add: buffer_world_def stub_world_def)

section \<open>Where the values travel\<close>

text \<open>
  C6. The getinfo functions deliver what was asked for through the out pointer, and not
  through the value they return. The out pointer is the third argument of the one call of
  \<^verbatim>\<open>curl_easy_getinfo\<close>, as a \<^verbatim>\<open>long *\<close> or as a \<^verbatim>\<open>void **\<close>; the value
  returned is the \<^verbatim>\<open>CURLcode\<close> of that call and nothing else, and the object at the
  out pointer afterwards is the one the call left there. The setopt functions pass the
  value as the third argument of the one call of \<^verbatim>\<open>curl_easy_setopt\<close>, as a
  \<^verbatim>\<open>long\<close> or as a \<^verbatim>\<open>const void *\<close>; what they return is the
  \<^verbatim>\<open>CURLcode\<close> of that call and nothing else, and the world they leave is the
  world that call left.
\<close>

theorem getinfo_result_through_out:
  "returned (curl_easy_getinfo_long_shim L handle info out w) =
     map_option fst (curl_easy_getinfo L handle info (VaLongPtr out) w)
   \<and> stored_after out (curl_easy_getinfo_long_shim L handle info out w) =
     map_option (\<lambda>x. mem (snd x) out) (curl_easy_getinfo L handle info (VaLongPtr out) w)
   \<and> calls (curl_easy_getinfo_long_shim L handle info out w) =
     [Call_getinfo handle info (VaLongPtr out)]
   \<and> returned (curl_easy_getinfo_ptr_shim L handle info out w) =
     map_option fst (curl_easy_getinfo L handle info (VaVoidPtrPtr out) w)
   \<and> stored_after out (curl_easy_getinfo_ptr_shim L handle info out w) =
     map_option (\<lambda>x. mem (snd x) out) (curl_easy_getinfo L handle info (VaVoidPtrPtr out) w)
   \<and> calls (curl_easy_getinfo_ptr_shim L handle info out w) =
     [Call_getinfo handle info (VaVoidPtrPtr out)]
   \<and> (curl_easy_getinfo L handle info (VaLongPtr out) w = Some (code, w') \<longrightarrow>
      returned (curl_easy_getinfo_long_shim L handle info out w) = Some code
      \<and> stored_after out (curl_easy_getinfo_long_shim L handle info out w) = Some (mem w' out))
   \<and> (curl_easy_getinfo L handle info (VaVoidPtrPtr out) w = Some (code, w') \<longrightarrow>
      returned (curl_easy_getinfo_ptr_shim L handle info out w) = Some code
      \<and> stored_after out (curl_easy_getinfo_ptr_shim L handle info out w) = Some (mem w' out))
   \<and> calls (curl_easy_setopt_long_shim L handle option value w) =
     [Call_setopt handle option (VaLong value)]
   \<and> returned (curl_easy_setopt_long_shim L handle option value w) =
     map_option fst (curl_easy_setopt L handle option (VaLong value) w)
   \<and> final (curl_easy_setopt_long_shim L handle option value w) =
     map_option snd (curl_easy_setopt L handle option (VaLong value) w)
   \<and> calls (curl_easy_setopt_ptr_shim L handle option ptr w) =
     [Call_setopt handle option (VaConstVoidPtr ptr)]
   \<and> returned (curl_easy_setopt_ptr_shim L handle option ptr w) =
     map_option fst (curl_easy_setopt L handle option (VaConstVoidPtr ptr) w)
   \<and> final (curl_easy_setopt_ptr_shim L handle option ptr w) =
     map_option snd (curl_easy_setopt L handle option (VaConstVoidPtr ptr) w)"
  by (simp add: returned_def stored_after_def final_def calls_def shim_outcome
      option.map_comp comp_def)

text \<open>
  With the stand-in, the object at address 4096 holds 77 before the getinfo call and 200
  after it, while the value returned is \<^verbatim>\<open>CURLE_OK\<close>. The setopt functions return
  \<^verbatim>\<open>CURLE_OK\<close>, not the value, which has gone to the library with the call.
\<close>

theorem getinfo_result_through_out_witness:
  "curl_easy_getinfo stub_lib 1 CURLINFO_RESPONSE_CODE (VaLongPtr 4096) stub_world =
     Some (CURLE_OK, stub_world\<lparr>mem := (mem stub_world)(4096 := 200)\<rparr>)
   \<and> curl_easy_getinfo stub_lib 1 CURLINFO_RESPONSE_CODE (VaVoidPtrPtr 4096) stub_world =
     Some (CURLE_OK, stub_world\<lparr>mem := (mem stub_world)(4096 := 200)\<rparr>)
   \<and> mem stub_world 4096 = 77
   \<and> returned (curl_easy_getinfo_long_shim stub_lib 1 CURLINFO_RESPONSE_CODE 4096 stub_world) =
       Some CURLE_OK
   \<and> stored_after 4096
       (curl_easy_getinfo_long_shim stub_lib 1 CURLINFO_RESPONSE_CODE 4096 stub_world) = Some 200
   \<and> returned (curl_easy_getinfo_ptr_shim stub_lib 1 CURLINFO_RESPONSE_CODE 4096 stub_world) =
       Some CURLE_OK
   \<and> stored_after 4096
       (curl_easy_getinfo_ptr_shim stub_lib 1 CURLINFO_RESPONSE_CODE 4096 stub_world) = Some 200
   \<and> calls (curl_easy_setopt_long_shim stub_lib 1 CURLOPT_TIMEOUT_MS 5000 stub_world) =
       [Call_setopt 1 CURLOPT_TIMEOUT_MS (VaLong 5000)]
   \<and> returned (curl_easy_setopt_long_shim stub_lib 1 CURLOPT_TIMEOUT_MS 5000 stub_world) =
       Some CURLE_OK
   \<and> final (curl_easy_setopt_long_shim stub_lib 1 CURLOPT_TIMEOUT_MS 5000 stub_world) =
       Some (stub_world\<lparr>lib := [(1, CURLOPT_TIMEOUT_MS, VaLong 5000)]\<rparr>)
   \<and> calls (curl_easy_setopt_ptr_shim stub_lib 1 CURLOPT_TIMEOUT_MS 4096 stub_world) =
       [Call_setopt 1 CURLOPT_TIMEOUT_MS (VaConstVoidPtr 4096)]
   \<and> returned (curl_easy_setopt_ptr_shim stub_lib 1 CURLOPT_TIMEOUT_MS 4096 stub_world) =
       Some CURLE_OK
   \<and> final (curl_easy_setopt_ptr_shim stub_lib 1 CURLOPT_TIMEOUT_MS 4096 stub_world) =
       Some (stub_world\<lparr>lib := [(1, CURLOPT_TIMEOUT_MS, VaConstVoidPtr 4096)]\<rparr>)"
proof -
  have long_call:
    "curl_easy_getinfo stub_lib 1 CURLINFO_RESPONSE_CODE (VaLongPtr 4096) stub_world =
       Some (CURLE_OK, stub_world\<lparr>mem := (mem stub_world)(4096 := 200)\<rparr>)"
    by (simp add: stub_getinfo_response_code one_not_NULL)
  have ptr_call:
    "curl_easy_getinfo stub_lib 1 CURLINFO_RESPONSE_CODE (VaVoidPtrPtr 4096) stub_world =
       Some (CURLE_OK, stub_world\<lparr>mem := (mem stub_world)(4096 := 200)\<rparr>)"
    by (simp add: stub_getinfo_response_code one_not_NULL)
  have before: "mem stub_world 4096 = 77" "lib stub_world = []"
    by (simp_all add: stub_world_def)
  from getinfo_result_through_out
    [of stub_lib 1 CURLINFO_RESPONSE_CODE 4096 stub_world CURLE_OK
        "stub_world\<lparr>mem := (mem stub_world)(4096 := 200)\<rparr>" CURLOPT_TIMEOUT_MS 5000 4096]
  show ?thesis
    using long_call ptr_call before by (simp add: stub_setopt_stores one_not_NULL)
qed

text \<open>
  C9. The getinfo functions never write through the out pointer themselves. The memory
  after the function is the memory the call of \<^verbatim>\<open>curl_easy_getinfo\<close> left, at every
  address; so when that call returns without having changed the object at the out
  pointer, the object is as the caller passed it.
\<close>

theorem getinfo_shim_never_writes_out:
  "map_option mem (final (curl_easy_getinfo_long_shim L handle info out w)) =
     map_option (\<lambda>x. mem (snd x)) (curl_easy_getinfo L handle info (VaLongPtr out) w)
   \<and> map_option mem (final (curl_easy_getinfo_ptr_shim L handle info out w)) =
     map_option (\<lambda>x. mem (snd x)) (curl_easy_getinfo L handle info (VaVoidPtrPtr out) w)
   \<and> (curl_easy_getinfo L handle info (VaLongPtr out) w = Some (code, w') \<and> mem w' out = mem w out \<longrightarrow>
       stored_after out (curl_easy_getinfo_long_shim L handle info out w) = Some (mem w out))
   \<and> (curl_easy_getinfo L handle info (VaVoidPtrPtr out) w = Some (code, w') \<and> mem w' out = mem w out \<longrightarrow>
       stored_after out (curl_easy_getinfo_ptr_shim L handle info out w) = Some (mem w out))"
  by (simp add: stored_after_def final_def shim_outcome option.map_comp comp_def)

text \<open>
  The stand-in fails on the unknown identifier 7 without writing: the object at address
  4096 still holds 77.
\<close>

theorem getinfo_shim_never_writes_out_witness:
  "curl_easy_getinfo stub_lib 1 7 (VaLongPtr 4096) stub_world =
     Some (CURLE_UNKNOWN_OPTION, stub_world)
   \<and> curl_easy_getinfo stub_lib 1 7 (VaVoidPtrPtr 4096) stub_world =
     Some (CURLE_UNKNOWN_OPTION, stub_world)
   \<and> mem stub_world 4096 = 77
   \<and> stored_after 4096 (curl_easy_getinfo_long_shim stub_lib 1 7 4096 stub_world) = Some 77
   \<and> stored_after 4096 (curl_easy_getinfo_ptr_shim stub_lib 1 7 4096 stub_world) = Some 77"
proof -
  have long_call:
    "curl_easy_getinfo stub_lib 1 7 (VaLongPtr 4096) stub_world =
       Some (CURLE_UNKNOWN_OPTION, stub_world)"
    by (simp add: stub_getinfo_unknown one_not_NULL seven_unknown)
  have ptr_call:
    "curl_easy_getinfo stub_lib 1 7 (VaVoidPtrPtr 4096) stub_world =
       Some (CURLE_UNKNOWN_OPTION, stub_world)"
    by (simp add: stub_getinfo_unknown one_not_NULL seven_unknown)
  have before: "mem stub_world 4096 = 77"
    by (simp add: stub_world_def)
  from getinfo_shim_never_writes_out
    [of stub_lib 1 7 4096 stub_world CURLE_UNKNOWN_OPTION stub_world]
  show ?thesis using long_call ptr_call before by simp
qed

section \<open>How many entry points\<close>

text \<open>
  C3, as the code has it. The source reaches two entry points of libcurl,
  \<^verbatim>\<open>curl_easy_setopt\<close> and \<^verbatim>\<open>curl_easy_getinfo\<close>, through four functions of
  its own: setopt with a \<^verbatim>\<open>long\<close> and with a pointer value, getinfo with a pointer
  to a \<^verbatim>\<open>long\<close> and with a pointer to a pointer. The four calls differ from one
  another even when the handle, the identifier and the bits of the third argument are
  the same.
\<close>

theorem shim_exposes_two_entry_points:
  "shim_calls L handle option info value ptr out_long out_ptr w =
     [Call_setopt handle option (VaLong value),
      Call_setopt handle option (VaConstVoidPtr ptr),
      Call_getinfo handle info (VaLongPtr out_long),
      Call_getinfo handle info (VaVoidPtrPtr out_ptr)]
   \<and> distinct (shim_calls L handle option info value ptr out_long out_ptr w)
   \<and> length (shim_calls L handle option info value ptr out_long out_ptr w) = 4
   \<and> set (map callee (shim_calls L handle option info value ptr out_long out_ptr w)) =
       {Easy_setopt, Easy_getinfo}
   \<and> card (set (map callee (shim_calls L handle option info value ptr out_long out_ptr w))) = 2"
  by (simp add: shim_calls_list)

text \<open>
  The count of three that C3 states is neither the number of libcurl functions reached
  (two) nor the number of functions the source defines (four).
\<close>

theorem three_entry_points_counterexample:
  "card (set (map callee
      (shim_calls stub_lib 1 CURLOPT_URL CURLINFO_RESPONSE_CODE 5 4096 4096 4096 stub_world))) \<noteq> 3
   \<and> length (shim_calls stub_lib 1 CURLOPT_URL CURLINFO_RESPONSE_CODE 5 4096 4096 4096 stub_world) \<noteq> 3"
  by (simp add: shim_calls_list)

section \<open>No check of the value's kind\<close>

text \<open>
  C2, as the code has it. The setopt functions do not check the kind of the value against
  the option. The kind of the value is fixed by the function that is called (a
  \<^verbatim>\<open>long\<close> or a \<^verbatim>\<open>const void *\<close>), the option is any number, and whatever kind
  the option is declared with (\<open>declared\<close>, any assignment of kinds to options), also
  one that differs from the kind of the value passed, the function makes the call of
  \<^verbatim>\<open>curl_easy_setopt\<close> with that option and that value, and its result is that
  call's: a failure, and which, is libcurl's to decide.
\<close>

theorem setopt_shim_checks_no_kind:
  fixes declared :: "CURLoption \<Rightarrow> value_kind"
  shows
  "(declared option \<noteq> kind_of_arg (VaLong value) \<longrightarrow>
      curl_easy_setopt_long_shim L handle option value w =
        ([Call_setopt handle option (VaLong value)],
         curl_easy_setopt L handle option (VaLong value) w))
   \<and> (declared option' \<noteq> kind_of_arg (VaConstVoidPtr ptr) \<longrightarrow>
      curl_easy_setopt_ptr_shim L handle option' ptr w =
        ([Call_setopt handle option' (VaConstVoidPtr ptr)],
         curl_easy_setopt L handle option' (VaConstVoidPtr ptr) w))"
  by (simp add: shim_outcome)

text \<open>
  \<^verbatim>\<open>CURLOPT_URL\<close> with a \<^verbatim>\<open>long\<close> and \<^verbatim>\<open>CURLOPT_TIMEOUT_MS\<close> with a
  pointer, on the stand-in.
\<close>

theorem setopt_shim_checks_no_kind_witness:
  "curlopt_kind CURLOPT_URL \<noteq> kind_of_arg (VaLong 5)
   \<and> curl_easy_setopt_long_shim stub_lib 1 CURLOPT_URL 5 stub_world =
       ([Call_setopt 1 CURLOPT_URL (VaLong 5)],
        Some (CURLE_OK, stub_world\<lparr>lib := [(1, CURLOPT_URL, VaLong 5)]\<rparr>))
   \<and> curlopt_kind CURLOPT_TIMEOUT_MS \<noteq> kind_of_arg (VaConstVoidPtr 4096)
   \<and> curl_easy_setopt_ptr_shim stub_lib 1 CURLOPT_TIMEOUT_MS 4096 stub_world =
       ([Call_setopt 1 CURLOPT_TIMEOUT_MS (VaConstVoidPtr 4096)],
        Some (CURLE_OK, stub_world\<lparr>lib := [(1, CURLOPT_TIMEOUT_MS, VaConstVoidPtr 4096)]\<rparr>))"
proof -
  have long_mismatch: "curlopt_kind CURLOPT_URL \<noteq> kind_of_arg (VaLong 5)"
    by (simp add: curlopt_kinds)
  have ptr_mismatch: "curlopt_kind CURLOPT_TIMEOUT_MS \<noteq> kind_of_arg (VaConstVoidPtr 4096)"
    by (simp add: curlopt_kinds)
  have empty: "lib stub_world = []"
    by (simp add: stub_world_def)
  from setopt_shim_checks_no_kind
    [of curlopt_kind CURLOPT_URL 5 stub_lib 1 stub_world CURLOPT_TIMEOUT_MS 4096]
  show ?thesis
    using long_mismatch ptr_mismatch empty by (simp add: stub_setopt_stores one_not_NULL)
qed

text \<open>
  C2 as stated says that a call with a value of the wrong kind fails and leaves the stored
  options unchanged. The functions pass such a call on like any other. With a library
  that accepts what it is given, as the stand-in does, \<^verbatim>\<open>CURLOPT_URL\<close> (declared
  with a pointer) set through the \<^verbatim>\<open>long\<close> function returns \<^verbatim>\<open>CURLE_OK\<close> and the
  option is stored; so does \<^verbatim>\<open>CURLOPT_TIMEOUT_MS\<close> (declared with a
  \<^verbatim>\<open>long\<close>) set through the pointer function.
\<close>

theorem kind_mismatch_counterexample:
  "curlopt_kind CURLOPT_URL = Pointer_kind
   \<and> kind_of_arg (VaLong 5) = Integer_kind
   \<and> lib stub_world = []
   \<and> returned (curl_easy_setopt_long_shim stub_lib 1 CURLOPT_URL 5 stub_world) = Some CURLE_OK
   \<and> map_option lib (final (curl_easy_setopt_long_shim stub_lib 1 CURLOPT_URL 5 stub_world)) =
       Some [(1, CURLOPT_URL, VaLong 5)]
   \<and> curlopt_kind CURLOPT_TIMEOUT_MS = Integer_kind
   \<and> kind_of_arg (VaConstVoidPtr 4096) = Pointer_kind
   \<and> returned (curl_easy_setopt_ptr_shim stub_lib 1 CURLOPT_TIMEOUT_MS 4096 stub_world) =
       Some CURLE_OK
   \<and> map_option lib
       (final (curl_easy_setopt_ptr_shim stub_lib 1 CURLOPT_TIMEOUT_MS 4096 stub_world)) =
       Some [(1, CURLOPT_TIMEOUT_MS, VaConstVoidPtr 4096)]"
  by (simp add: curlopt_kinds returned_def final_def shim_outcome stub_setopt_stores
      one_not_NULL stub_world_def)

end
